theory Spec2Isabelle
  imports Main
begin

section \<open>config/config.go: string and boolean getters\<close>

text \<open>
  A configuration value is a Go \<open>interface{}\<close>: a string or something else (a nested
  map, a list). A Go map \<open>map[string]interface{}\<close> is a partial map; a missing key
  reads as the nil interface.
\<close>

datatype confValue = CString string | COther

record Config =
  path :: string
  vars :: "string \<rightharpoonup> confValue"

text \<open>
  \<open>Config.getWhere\<close> and \<open>Config.getWarn\<close> are not part of the sources at hand;
  the getters below take them as parameters. \<open>getWhere conf varName create\<close> yields
  the map holding the variable together with the last part of its name, or
  \<open>None\<close> for Go's nil map.
\<close>

type_synonym getWhereT = "Config \<Rightarrow> string \<Rightarrow> bool \<Rightarrow> ((string \<rightharpoonup> confValue) \<times> string) option"
type_synonym getWarnT = "Config \<Rightarrow> string \<Rightarrow> string"

definition Get :: "getWhereT \<Rightarrow> Config \<Rightarrow> string \<Rightarrow> string" where
  "Get getWhere conf varName =
     (case getWhere conf varName False of
        None \<Rightarrow> []
      | Some (wh, lastPart) \<Rightarrow>
          (case wh lastPart of
             Some (CString str) \<Rightarrow> str
           | None \<Rightarrow> []
           | Some COther \<Rightarrow> []))"

definition isTrueString :: "string \<Rightarrow> bool" where
  "isTrueString str = (if str = [] \<or> str = ''0'' then False else True)"

definition GetBool :: "getWhereT \<Rightarrow> Config \<Rightarrow> string \<Rightarrow> bool" where
  "GetBool getWhere conf varName = isTrueString (Get getWhere conf varName)"

text \<open>\<open>Require\<close> returns \<open>("", err)\<close> or \<open>(val, nil)\<close>: \<open>Inl\<close> carries the error text.\<close>

definition Require :: "getWhereT \<Rightarrow> getWarnT \<Rightarrow> Config \<Rightarrow> string \<Rightarrow> string + string" where
  "Require getWhere getWarn conf varName =
     (let val = Get getWhere conf varName in
      if \<not> isTrueString val
      then Inl (getWarn conf (''@'' @ varName @ '' is required''))
      else Inr val)"

section \<open>wikifier/parser-catch.go: the generic catch\<close>

text \<open>
  Content held by a catch is a Go \<open>interface{}\<close>: a string or a pointer to a parser
  block. Blocks live in a store and are referred to by address.
\<close>

type_synonym addr = nat
type_synonym Position = "nat \<times> nat"

datatype content = Str string | Blk addr

type_synonym posContent = "content \<times> Position"

record genericCatch =
  positioned :: "posContent list"
  positionedPrefix :: "posContent list"
  line :: string
  firstNewline :: bool
  removeIndent :: string

text \<open>Go panics (index out of range, nil dereference) and returned errors.\<close>

datatype error = Error string | Panic

definition emptyCatch :: genericCatch where
  "emptyCatch = \<lparr>positioned = [], positionedPrefix = [], line = [],
                 firstNewline = False, removeIndent = []\<rparr>"

definition LF :: char where "LF = CHR 0x0A"
definition CR :: char where "CR = CHR 0x0D"
definition TAB :: char where "TAB = CHR 0x09"
definition FF :: char where "FF = CHR 0x0C"
definition NUL :: char where "NUL = CHR 0x00"
definition BSL :: char where "BSL = CHR 0x5C"

text \<open>\<open>setLastContent\<close> indexes \<open>positioned[len-1]\<close>: a panic on an empty slice.\<close>

definition setLastContent :: "content \<Rightarrow> genericCatch \<Rightarrow> error + genericCatch" where
  "setLastContent c g =
     (if positioned g = [] then Inl Panic
      else Inr (g\<lparr>positioned :=
                   (positioned g)[length (positioned g) - 1 := (c, snd (last (positioned g)))]\<rparr>))"

text \<open>\<open>lastContent\<close>: \<open>None\<close> is the nil interface of an empty catch.\<close>

definition lastContent :: "genericCatch \<Rightarrow> content option" where
  "lastContent g = (if positioned g = [] then None else Some (fst (last (positioned g))))"

definition lastString :: "genericCatch \<Rightarrow> string" where
  "lastString g =
     (if positioned g = [] then []
      else (case lastContent g of Some (Str s) \<Rightarrow> s | _ \<Rightarrow> []))"

definition pushContent :: "content \<Rightarrow> Position \<Rightarrow> genericCatch \<Rightarrow> genericCatch" where
  "pushContent item pos g = g\<lparr>positioned := positioned g @ [(item, pos)]\<rparr>"

definition appendContents :: "posContent list \<Rightarrow> genericCatch \<Rightarrow> genericCatch" where
  "appendContents pc g = g\<lparr>positioned := positioned g @ pc\<rparr>"

text \<open>\<open>strings.LastIndexByte\<close>: the index of the last occurrence, \<open>-1\<close> when absent.\<close>

fun lastIndexByte :: "string \<Rightarrow> char \<Rightarrow> int" where
  "lastIndexByte [] c = -1"
| "lastIndexByte (x # xs) c =
     (let r = lastIndexByte xs c in
      if r \<noteq> -1 then r + 1 else if x = c then 0 else -1)"

text \<open>\<open>strings.TrimPrefix\<close> and \<open>strings.TrimLeft(s, "\t ")\<close>.\<close>

definition trimPrefix :: "string \<Rightarrow> string \<Rightarrow> string" where
  "trimPrefix s pfx = (if take (length pfx) s = pfx then drop (length pfx) s else s)"

definition trimLeftTabSpace :: "string \<Rightarrow> string" where
  "trimLeftTabSpace s = dropWhile (\<lambda>c. c = TAB \<or> c = CHR '' '') s"

definition finishLine :: "genericCatch \<Rightarrow> genericCatch" where
  "finishLine g0 =
     (let g = g0\<lparr>line := []\<rparr> in
      case lastContent g of
        Some (Str lastStr) \<Rightarrow>
          if removeIndent g = [] then g
          else
            (let li = lastIndexByte lastStr LF;
                 lineStart = (if li = -1 then 0 else nat li);
                 newPortion = trimPrefix (drop lineStart lastStr) (removeIndent g);
                 newStr = take lineStart lastStr @ newPortion
             in g\<lparr>positioned :=
                    (positioned g)[length (positioned g) - 1 :=
                       (Str newStr, snd (last (positioned g)))]\<rparr>)
      | _ \<Rightarrow> g)"

text \<open>
  \<open>appendString\<close> reads \<open>s[len(s)-1]\<close> first: a panic on the empty string.
\<close>

definition noteNewline :: "genericCatch \<Rightarrow> genericCatch" where
  "noteNewline g =
     (if \<not> firstNewline g \<and> length (line g) > 2
      then
        (let g1 = g\<lparr>firstNewline := True\<rparr>;
             afterTrim = trimLeftTabSpace (line g1);
             difference = length (line g1) - length afterTrim
         in if difference \<noteq> 0 then g1\<lparr>removeIndent := take difference (line g1)\<rparr> else g1)
      else g)"

definition appendString :: "string \<Rightarrow> Position \<Rightarrow> genericCatch \<Rightarrow> error + genericCatch" where
  "appendString s pos g0 =
     (if s = [] then Inl Panic
      else
        (let g1 = g0\<lparr>line := line g0 @ s\<rparr>;
             g = (if last s = LF then finishLine (noteNewline g1) else g1)
         in if positioned g = [] then Inr (pushContent (Str s) pos g)
            else (case lastContent g of
                    Some (Str v) \<Rightarrow>
                      if v \<noteq> [] \<and> last v = LF
                      then Inr (pushContent (Str s) pos g)
                      else Inr (g\<lparr>positioned :=
                                    (positioned g)[length (positioned g) - 1 :=
                                       (Str (v @ s), snd (last (positioned g)))]\<rparr>)
                  | _ \<Rightarrow> Inr (pushContent (Str s) pos g))))"

text \<open>
  The property of the positioned content list: two neighbouring elements are both
  strings only when the earlier one ends with a newline.
\<close>

definition endsNewline :: "string \<Rightarrow> bool" where
  "endsNewline v = (v \<noteq> [] \<and> last v = LF)"

fun stringsSeparated :: "posContent list \<Rightarrow> bool" where
  "stringsSeparated [] = True"
| "stringsSeparated [x] = True"
| "stringsSeparated (x # y # rest) =
     ((case (fst x, fst y) of
         (Str v, Str w) \<Rightarrow> endsNewline v
       | _ \<Rightarrow> True) \<and> stringsSeparated (y # rest))"

section \<open>wikifier/parser.go: the parser state\<close>

text \<open>
  The parser holds pointers to the current block and the current catch. Blocks and
  variable-name catches are objects of a store, a list indexed by address; a new
  object is put at the end. \<open>None\<close> is Go's nil.
  A block embeds a generic catch of its own.
\<close>

record parserBlock =
  typ_b :: string
  name :: string
  classes :: "string list"
  openPos :: Position
  closePos :: Position
  closed :: bool
  parent :: "addr option"
  blockCatch :: genericCatch

record parserVariableName =
  vnParent :: "addr option"
  vnCatch :: genericCatch

datatype catchObj = Block parserBlock | VariableName parserVariableName

text \<open>The bytes \<open>last\<close>, \<open>this\<close> and \<open>next\<close> of the source are \<open>last_b\<close>, \<open>this_b\<close>, \<open>next_b\<close>.\<close>

record parser =
  pos :: Position
  last_b :: char
  this_b :: char
  next_b :: char
  skip :: bool
  ignore :: bool
  escape :: bool
  catch :: "addr option"
  block :: "addr option"
  commentLevel :: int
  braceLevel :: int
  braceFirst :: bool
  varNotInterpolated :: bool
  varNegated :: bool
  heap :: "catchObj list"

definition load :: "catchObj list \<Rightarrow> addr \<Rightarrow> catchObj option" where
  "load h a = (if a < length h then Some (h ! a) else None)"

fun genericOf :: "catchObj \<Rightarrow> genericCatch" where
  "genericOf (Block b) = blockCatch b"
| "genericOf (VariableName v) = vnCatch v"

fun setGeneric :: "genericCatch \<Rightarrow> catchObj \<Rightarrow> catchObj" where
  "setGeneric g (Block b) = Block (b\<lparr>blockCatch := g\<rparr>)"
| "setGeneric g (VariableName v) = VariableName (v\<lparr>vnCatch := g\<rparr>)"

subsection \<open>The catch interface of blocks and variable names\<close>

text \<open>
  Modelled from the spec: the methods \<open>getParentCatch\<close>, \<open>byteOK\<close>,
  \<open>shouldSkipByte\<close> and \<open>catchType\<close> of \<open>parserBlock\<close> and of the variable-name
  catch, and the constructor \<open>newParserVariableName\<close>, are missing from the sources.
  A catch advertises which bytes are acceptable, which terminate it and a
  human-readable kind name. The parent catch of a block is its parent block, the only
  link that the block literal of \<open>parseByte\<close> sets; that of a variable name is the
  \<open>parent\<close> field that \<open>parseByte\<close> assigns. Block content takes every byte and no
  byte terminates it. Variable name characters are \<open>[A-Za-z0-9_.]\<close>; whitespace
  ends a variable name (the \<open>skip_chars\<close> of the comment in \<open>parseByte\<close>), and the
  prefix is kept as positioned prefix content. The kind names are those of the
  \<open>catchType\<close> constants.
\<close>

fun getParentCatch :: "catchObj \<Rightarrow> addr option" where
  "getParentCatch (Block b) = parent b"
| "getParentCatch (VariableName v) = vnParent v"

definition isWordChar :: "char \<Rightarrow> bool" where
  "isWordChar c =
     (let n = (of_char c :: nat) in
      (48 \<le> n \<and> n \<le> 57) \<or> (65 \<le> n \<and> n \<le> 90) \<or> (97 \<le> n \<and> n \<le> 122) \<or> n = 95)"

definition isSpace :: "char \<Rightarrow> bool" where
  "isSpace c = (c = TAB \<or> c = LF \<or> c = FF \<or> c = CR \<or> c = CHR '' '')"

fun byteOK :: "catchObj \<Rightarrow> char \<Rightarrow> bool" where
  "byteOK (Block b) c = True"
| "byteOK (VariableName v) c = (isWordChar c \<or> c = CHR ''.'')"

fun shouldSkipByte :: "catchObj \<Rightarrow> char \<Rightarrow> bool" where
  "shouldSkipByte (Block b) c = False"
| "shouldSkipByte (VariableName v) c = isSpace c"

fun catchType :: "catchObj \<Rightarrow> string" where
  "catchType (Block b) = ''Block''"
| "catchType (VariableName v) = ''Variable name''"

definition newParserVariableName :: "string \<Rightarrow> Position \<Rightarrow> parserVariableName" where
  "newParserVariableName pfx ps =
     \<lparr>vnParent = None, vnCatch = emptyCatch\<lparr>positionedPrefix := [(Str pfx, ps)]\<rparr>\<rparr>"

definition variableTokens :: "char \<Rightarrow> bool" where
  "variableTokens c =
     (c = CHR ''@'' \<or> c = CHR ''%'' \<or> c = CHR '':'' \<or> c = CHR '';'' \<or> c = CHR ''-'')"

text \<open>The object behind \<open>p.catch\<close>; calling a method on the nil catch panics.\<close>

definition catchObjOf :: "parser \<Rightarrow> error + (addr \<times> catchObj)" where
  "catchObjOf p =
     (case catch p of
        None \<Rightarrow> Inl Panic
      | Some a \<Rightarrow> (case load (heap p) a of None \<Rightarrow> Inl Panic | Some obj \<Rightarrow> Inr (a, obj)))"

text \<open>\<open>p.block.typ\<close>; a nil block panics.\<close>

definition blockObjOf :: "parser \<Rightarrow> error + (addr \<times> parserBlock)" where
  "blockObjOf p =
     (case block p of
        None \<Rightarrow> Inl Panic
      | Some a \<Rightarrow> (case load (heap p) a of Some (Block b) \<Rightarrow> Inr (a, b) | _ \<Rightarrow> Inl Panic))"

subsection \<open>nextByte and handleByte\<close>

text \<open>
  The conversion \<open>string(b)\<close> of a byte \<open>b\<close>: Go reads the byte as a code point and
  yields its UTF-8 encoding, the byte itself below 0x80 and two bytes from 0x80 on.
  (\<open>string([]byte{...})\<close> keeps the bytes as they are.)
\<close>

definition goString :: "char \<Rightarrow> string" where
  "goString b =
     (let n = (of_char b :: nat) in
      if n < 128 then [b]
      else [char_of (192 + n div 64), char_of (128 + n mod 64)])"

definition nextByte :: "parser \<Rightarrow> char \<Rightarrow> error + parser" where
  "nextByte p b =
     Inr (p\<lparr>ignore := False, last_b := b,
            escape := (b = BSL \<and> \<not> escape p \<and> braceLevel p = 0)\<rparr>)"

text \<open>The tail of \<open>handleByte\<close>: append to the catch, then \<open>nextByte\<close>.\<close>

definition appendToCatch :: "parser \<Rightarrow> string \<Rightarrow> char \<Rightarrow> error + parser" where
  "appendToCatch p add b =
     (case catchObjOf p of
        Inl e \<Rightarrow> Inl e
      | Inr (a, obj) \<Rightarrow>
          (case appendString add (pos p) (genericOf obj) of
             Inl e \<Rightarrow> Inl e
           | Inr g \<Rightarrow> nextByte (p\<lparr>heap := (heap p)[a := setGeneric g obj]\<rparr>) b))"

definition invalidByteError :: "catchObj \<Rightarrow> char \<Rightarrow> error" where
  "invalidByteError obj b =
     (let ch = (if goString b = [LF] then [CHR 0xE2, CHR 0x90, CHR 0xA4] else goString b);
          err = ''Invalid byte '' @ [CHR 0x27] @ ch @ [CHR 0x27] @ '' in '' @ catchType obj @ ''.'';
          str = lastString (genericOf obj)
      in Error (if str \<noteq> [] then err @ ''Partial: '' @ str else err))"

definition handleByte :: "parser \<Rightarrow> char \<Rightarrow> error + parser" where
  "handleByte p b =
     (case catch p of
        None \<Rightarrow> Inl (Error (''Nothing to catch byte: '' @ goString b))
      | Some a \<Rightarrow>
          (case load (heap p) a of
             None \<Rightarrow> Inl Panic
           | Some obj \<Rightarrow>
               (let add = (if ignore p \<and> escape p then [last_b p, b] else goString b) in
                if shouldSkipByte obj b then
                  (let pc = positioned (genericOf obj);
                       pfx = positionedPrefix (genericOf obj);
                       pc' = (if pfx \<noteq> [] then pfx @ pc else pc)
                   in case getParentCatch obj of
                        None \<Rightarrow> Inl Panic
                      | Some pa \<Rightarrow>
                          (case load (heap p) pa of
                             None \<Rightarrow> Inl Panic
                           | Some pobj \<Rightarrow>
                               appendToCatch
                                 (p\<lparr>catch := Some pa,
                                    heap := (heap p)[pa :=
                                      setGeneric (appendContents pc' (genericOf pobj)) pobj]\<rparr>)
                                 add b))
                else if \<not> byteOK obj b then Inl (invalidByteError obj b)
                else appendToCatch p add b)))"

subsection \<open>parseByte\<close>

text \<open>The brace-escape branch of \<open>parseByte\<close>, taken when \<open>braceLevel\<close> is not 0.\<close>

definition braceCount :: "parser \<Rightarrow> bool \<Rightarrow> char \<Rightarrow> error + parser" where
  "braceCount p isFirst b =
     (if b = CHR ''{'' \<and> \<not> isFirst then Inr (p\<lparr>braceLevel := braceLevel p + 1\<rparr>)
      else if b = CHR ''}'' then
        (let p1 = p\<lparr>braceLevel := braceLevel p - 1\<rparr> in
         if braceLevel p1 = 0 then
           (case catchObjOf p1 of
              Inl e \<Rightarrow> Inl e
            | Inr (a, obj) \<Rightarrow> Inr (p1\<lparr>catch := getParentCatch obj\<rparr>))
         else Inr p1)
      else Inr p)"

definition braceEscape :: "parser \<Rightarrow> char \<Rightarrow> error + parser" where
  "braceEscape p b =
     (let isFirst = braceFirst p in
      case braceCount (p\<lparr>braceFirst := False\<rparr>) isFirst b of
        Inl e \<Rightarrow> Inl e
      | Inr p1 \<Rightarrow>
          if isFirst \<or> braceLevel p1 = 0 then nextByte p1 b else handleByte p1 b)"

text \<open>
  The backward scan over the last string of the catch, here over the reversed string.
  The match of \<open>[\w\-\$\.]\<close> is \<open>isTypeChar\<close>, that of \<open>\s\<close> is \<open>isSpace\<close>.
  The result is \<open>(charsScanned, blockType, blockName)\<close>.
\<close>

definition isTypeChar :: "char \<Rightarrow> bool" where
  "isTypeChar c = (isWordChar c \<or> c = CHR ''-'' \<or> c = CHR ''$'' \<or> c = CHR ''.'')"

fun scanHeader :: "string \<Rightarrow> int \<Rightarrow> nat \<Rightarrow> string \<Rightarrow> string \<Rightarrow> nat \<times> string \<times> string" where
  "scanHeader [] inBlockName charsScanned blockType blockName =
     (charsScanned, blockType, blockName)"
| "scanHeader (lastChar # rest) inBlockName0 charsScanned0 blockType blockName =
     (let charsScanned = charsScanned0 + 1;
          inBlockName =
            (if lastChar = CHR '']'' then inBlockName0 + 1
             else if lastChar = CHR ''['' then inBlockName0 - 1
             else inBlockName0)
      in if lastChar = CHR '']'' \<and> inBlockName = 1 then
           scanHeader rest inBlockName charsScanned blockType blockName
         else if lastChar = CHR ''['' \<and> inBlockName \<noteq> 1 then
           scanHeader rest inBlockName charsScanned blockType blockName
         else if inBlockName \<noteq> 0 then
           scanHeader rest inBlockName charsScanned blockType (goString lastChar @ blockName)
         else if isTypeChar lastChar then
           scanHeader rest inBlockName charsScanned (goString lastChar @ blockType) blockName
         else if lastChar = CHR ''~'' \<and> blockType \<noteq> [] then
           (charsScanned, blockType, blockName)
         else if isSpace lastChar \<and> blockType = [] then
           scanHeader rest inBlockName charsScanned blockType blockName
         else (charsScanned - 1, blockType, blockName))"

text \<open>\<open>strings.Split\<close> with a separator of one byte.\<close>

fun splitOn :: "char \<Rightarrow> string \<Rightarrow> string list" where
  "splitOn sep [] = [[]]"
| "splitOn sep (c # cs) =
     (if c = sep then [] # splitOn sep cs
      else (case splitOn sep cs of
              [] \<Rightarrow> [[c]]
            | w # ws \<Rightarrow> (c # w) # ws))"

text \<open>
  The type, classes and name of the new block, from the scanned type and name:
  classes after dots, \<open>map\<close> for an empty type, a model for a leading \<open>$\<close>.
\<close>

definition blockHeader :: "string \<Rightarrow> string \<Rightarrow> string \<times> string \<times> string list" where
  "blockHeader scannedType scannedName =
     (let split = splitOn (CHR ''.'') scannedType;
          blockType0 = (if length split > 1 then hd split else scannedType);
          blockClasses = (if length split > 1 then tl split else []);
          blockType1 = (if blockType0 = [] then ''map'' else blockType0)
      in if hd blockType1 = CHR ''$''
         then (''model'', tl blockType1, blockClasses)
         else (blockType1, scannedName, blockClasses))"

text \<open>
  The branch of an unescaped \<open>{\<close>, up to the final \<open>handleByte\<close>.
\<close>

definition openBlock :: "parser \<Rightarrow> error + parser" where
  "openBlock p =
     (if next_b p = CHR ''@'' then Inr (p\<lparr>skip := True\<rparr>)
      else
        (case catchObjOf p of
           Inl e \<Rightarrow> Inl e
         | Inr (a, obj) \<Rightarrow>
             (let lastContent = lastString (genericOf obj) in
              if length lastContent = 0 then Inl (Error ''Block has no type'')
              else
                (case scanHeader (rev lastContent) 0 0 [] [] of
                   (charsScanned, scannedType, scannedName) \<Rightarrow>
                     (case setLastContent
                             (Str (take (length lastContent - charsScanned) lastContent))
                             (genericOf obj) of
                        Inl e \<Rightarrow> Inl e
                      | Inr g \<Rightarrow>
                          (case blockHeader scannedType scannedName of
                             (blockType, blockName, blockClasses) \<Rightarrow>
                               (let h1 = (heap p)[a := setGeneric g obj];
                                    newBlock = \<lparr>typ_b = blockType, name = blockName,
                                                classes = blockClasses, openPos = pos p,
                                                closePos = (0, 0), closed = False,
                                                parent = block p, blockCatch = emptyCatch\<rparr>;
                                    p1 = p\<lparr>heap := h1 @ [Block newBlock],
                                           block := Some (length h1),
                                           catch := Some (length h1)\<rparr>
                                in if next_b p = CHR ''{''
                                   then Inr (p1\<lparr>braceFirst := True,
                                                 braceLevel := braceLevel p1 + 1\<rparr>)
                                   else Inr p1)))))))"

text \<open>
  The branch of an unescaped \<open>}\<close>, up to the final \<open>handleByte\<close>.
\<close>

definition closeBlock :: "parser \<Rightarrow> error + parser" where
  "closeBlock p =
     (case blockObjOf p of
        Inl e \<Rightarrow> Inl e
      | Inr (ba, blk) \<Rightarrow>
          if typ_b blk = ''main'' then Inl (Error ''Attempted to close main block'')
          else
            (let p1 = p\<lparr>heap := (heap p)[ba := Block (blk\<lparr>closed := True, closePos := pos p\<rparr>)],
                        block := parent blk\<rparr>
             in case catchObjOf p1 of
                  Inl e \<Rightarrow> Inl e
                | Inr (ca, cobj) \<Rightarrow>
                    (let p2 = p1\<lparr>catch := getParentCatch cobj\<rparr> in
                     case catchObjOf p2 of
                       Inl e \<Rightarrow> Inl e
                     | Inr (pa, pobj) \<Rightarrow>
                         Inr (p2\<lparr>heap := (heap p2)[pa :=
                                  setGeneric (pushContent (Blk ba) (pos p2) (genericOf pobj)) pobj]\<rparr>))))"

text \<open>
  The branch of a variable token in a block of type \<open>main\<close>, after the escape test and
  up to the final \<open>handleByte\<close>.
\<close>

definition variableToken :: "parser \<Rightarrow> char \<Rightarrow> error + parser" where
  "variableToken p b =
     (if (b = CHR ''@'' \<or> b = CHR ''%'') \<and> catch p = block p then
        (let p1 = (if b = CHR ''%'' then p\<lparr>varNotInterpolated := True\<rparr> else p);
             pfx = (if last_b p = CHR ''-'' then goString (last_b p) @ goString b else goString b);
             p2 = (if last_b p = CHR ''-'' then p1\<lparr>varNegated := True\<rparr> else p1);
             c = (newParserVariableName pfx (pos p))\<lparr>vnParent := catch p\<rparr>
         in Inr (p2\<lparr>heap := heap p @ [VariableName c], catch := Some (length (heap p))\<rparr>))
      else if b = CHR '':'' \<or> b = CHR '';'' then
        (case catchObjOf p of Inl e \<Rightarrow> Inl e | Inr (a, obj) \<Rightarrow> Inr p)
      else Inr p)"

definition parseByte :: "parser \<Rightarrow> char \<Rightarrow> error + parser" where
  "parseByte p b =
     (if braceLevel p \<noteq> 0 then braceEscape p b
      else if b = CHR ''/'' \<and> next_b p = CHR ''*'' then
        (if escape p then handleByte (p\<lparr>ignore := True\<rparr>) b
         else nextByte (p\<lparr>ignore := True, commentLevel := commentLevel p + 1\<rparr>) b)
      else if b = CHR ''*'' \<and> next_b p = CHR ''/'' then
        (if commentLevel p = 0 then handleByte p b
         else nextByte (p\<lparr>commentLevel := commentLevel p - 1, skip := True\<rparr>) b)
      else if commentLevel p \<noteq> 0 then nextByte p b
      else if b = CHR ''{'' then
        (if escape p then handleByte (p\<lparr>ignore := True\<rparr>) b
         else (case openBlock (p\<lparr>ignore := True\<rparr>) of
                 Inl e \<Rightarrow> Inl e
               | Inr p1 \<Rightarrow> handleByte p1 b))
      else if b = CHR ''}'' then
        (if escape p then handleByte (p\<lparr>ignore := True\<rparr>) b
         else (case closeBlock (p\<lparr>ignore := True\<rparr>) of
                 Inl e \<Rightarrow> Inl e
               | Inr p1 \<Rightarrow> handleByte p1 b))
      else if b = BSL then
        (if escape p then handleByte p b else nextByte p b)
      else
        (case blockObjOf p of
           Inl e \<Rightarrow> Inl e
         | Inr (ba, blk) \<Rightarrow>
             if typ_b blk = ''main'' \<and> variableTokens b \<and> last_b p \<noteq> CHR ''['' then
               (if escape p then handleByte (p\<lparr>ignore := True\<rparr>) b
                else (case variableToken (p\<lparr>ignore := True\<rparr>) b of
                        Inl e \<Rightarrow> Inl e
                      | Inr p1 \<Rightarrow> handleByte p1 b))
             else handleByte p b))"

subsection \<open>parseLine and Parse\<close>

text \<open>
  \<open>parseLineFrom i\<close> is the loop of \<open>parseLine\<close> from index \<open>i\<close> on, over the rest
  of the line.
\<close>

fun parseLineFrom :: "nat \<Rightarrow> string \<Rightarrow> parser \<Rightarrow> error + parser" where
  "parseLineFrom i [] p = Inr p"
| "parseLineFrom i (b # rest) p =
     (if skip p then parseLineFrom (i + 1) rest (p\<lparr>skip := False\<rparr>)
      else
        (case parseByte
                (p\<lparr>pos := (fst (pos p), i + 1), this_b := b,
                   next_b := (case rest of [] \<Rightarrow> NUL | c # cs \<Rightarrow> c)\<rparr>) b of
           Inl e \<Rightarrow> Inl e
         | Inr p1 \<Rightarrow> parseLineFrom (i + 1) rest p1))"

definition parseLine :: "string \<Rightarrow> parser \<Rightarrow> error + parser" where
  "parseLine ln p = parseLineFrom 0 ln p"

fun parseLines :: "nat \<Rightarrow> string list \<Rightarrow> parser \<Rightarrow> error + parser" where
  "parseLines i [] p = Inr p"
| "parseLines i (ln # lns) p =
     (case parseLine ln (p\<lparr>pos := (i + 1, snd (pos p))\<rparr>) of
        Inl e \<Rightarrow> Inl e
      | Inr p1 \<Rightarrow> parseLines (i + 1) lns p1)"

definition mainBlock :: parserBlock where
  "mainBlock = \<lparr>typ_b = ''main'', name = [], classes = [], openPos = (0, 0),
                closePos = (0, 0), closed = False, parent = None,
                blockCatch = emptyCatch\<rparr>"

definition newParser :: parser where
  "newParser = \<lparr>pos = (0, 0), last_b = NUL, this_b = NUL, next_b = NUL,
                skip = False, ignore = False, escape = False,
                catch = Some 0, block = Some 0, commentLevel = 0, braceLevel = 0,
                braceFirst = False, varNotInterpolated = False, varNegated = False,
                heap = [Block mainBlock]\<rparr>"

text \<open>
  \<open>Parse\<close> returns only an error in the source; here a successful parse returns the
  final parser state, whose store holds the block tree with the main block at
  address 0.
\<close>

definition Parse :: "string \<Rightarrow> error + parser" where
  "Parse input = parseLines 0 (splitOn LF input) newParser"

text \<open>The content of the catch at an address, without positions.\<close>

definition contentAt :: "parser \<Rightarrow> addr \<Rightarrow> content list" where
  "contentAt p a =
     (case load (heap p) a of None \<Rightarrow> [] | Some obj \<Rightarrow> map fst (positioned (genericOf obj)))"

section \<open>wikifier/block-gallery.go: the gallery block\<close>

text \<open>
  The image block, the map block that the gallery embeds and the page options are not
  part of the sources at hand. Of an image block the gallery uses the fields below;
  \<open>file_img\<close> and \<open>path_img\<close> are its fields \<open>file\<close> and \<open>path\<close>. \<open>img.parse(page)\<close> is the parameter \<open>imageParse\<close>
  and \<open>page.Opt.Root.Image\<close> the parameter \<open>rootImage\<close>.
  A value of the map is a string, an image block, another block, or something else.
\<close>

record imageBlock =
  file_img :: string
  path_img :: string
  width :: int
  height :: int
  parsedDimensions :: bool

datatype mapValue = MString string | MImage imageBlock | MBlock | MOther

text \<open>
  A warning is a message. \<open>Wrapped k\<close> stands for the text of
  \<open>errors.Wrap(err, k)\<close>, where \<open>err\<close> comes from a getter of the map block.
\<close>

datatype warning = Text string | Wrapped string

record galleryEntry =
  thumbPath :: string
  img :: imageBlock

text \<open>
  The gallery with the embedded map: its keys in order and its values
  (an image block is held by pointer, so the map sees what \<open>addImage\<close> does to it).
\<close>

record galleryBlock =
  thumbHeight :: int
  images :: "galleryEntry list"
  orderedKeys :: "string list"
  mapValues :: "string \<rightharpoonup> mapValue"
  warnings :: "warning list"

definition newGalleryBlock :: "string list \<Rightarrow> (string \<rightharpoonup> mapValue) \<Rightarrow> galleryBlock" where
  "newGalleryBlock ks vs =
     \<lparr>thumbHeight = 220, images = [], orderedKeys = ks, mapValues = vs, warnings = []\<rparr>"

text \<open>
  Modelled from the spec: the typed getters \<open>GetStr\<close> and \<open>GetBlock\<close> of the map
  block are missing from the sources. Reads return a value or an error; the error is
  \<open>None\<close> here, a wrong value type being an error.
\<close>

definition GetStr :: "galleryBlock \<Rightarrow> string \<Rightarrow> string option" where
  "GetStr g k = (case mapValues g k of Some (MString s) \<Rightarrow> Some s | _ \<Rightarrow> None)"

definition GetBlock :: "galleryBlock \<Rightarrow> string \<Rightarrow> mapValue option" where
  "GetBlock g k =
     (case mapValues g k of
        Some (MImage i) \<Rightarrow> Some (MImage i)
      | Some MBlock \<Rightarrow> Some MBlock
      | _ \<Rightarrow> None)"

text \<open>
  \<open>strconv.Atoi\<close>: an optional sign and decimal digits, within the range of a 64-bit
  \<open>int\<close>; \<open>None\<close> is its error.
\<close>

definition isDigit :: "char \<Rightarrow> bool" where
  "isDigit c = (48 \<le> (of_char c :: nat) \<and> (of_char c :: nat) \<le> 57)"

fun digitsValue :: "int \<Rightarrow> string \<Rightarrow> int" where
  "digitsValue acc [] = acc"
| "digitsValue acc (c # cs) = digitsValue (acc * 10 + (int (of_char c) - 48)) cs"

definition Atoi :: "string \<Rightarrow> int option" where
  "Atoi s =
     (case s of
        [] \<Rightarrow> None
      | c # cs \<Rightarrow>
          (let neg = (c = CHR ''-'');
               ds = (if c = CHR ''-'' \<or> c = CHR ''+'' then cs else s)
           in if ds = [] \<or> \<not> list_all isDigit ds then None
              else
                (let n = digitsValue 0 ds; v = (if neg then - n else n)
                 in if - (2 ^ 63) \<le> v \<and> v \<le> 2 ^ 63 - 1 then Some v else None)))"

definition warn :: "warning \<Rightarrow> galleryBlock \<Rightarrow> galleryBlock" where
  "warn w g = g\<lparr>warnings := warnings g @ [w]\<rparr>"

text \<open>
  \<open>addImage\<close> returns the gallery and the image block as it leaves it. The largest
  retina scale that the source computes is not used afterwards.
\<close>

definition addImage ::
  "(imageBlock \<Rightarrow> imageBlock) \<Rightarrow> string \<Rightarrow> galleryBlock \<Rightarrow> imageBlock \<Rightarrow> galleryBlock \<times> imageBlock" where
  "addImage imageParse rootImage g i0 =
     (let i1 = imageParse (i0\<lparr>height := thumbHeight g, width := 0, parsedDimensions := True\<rparr>);
          i2 = i1\<lparr>path_img := rootImage @ ''/'' @ file_img i1\<rparr>;
          entry = \<lparr>thumbPath = path_img i1, img = i2\<rparr>
      in (g\<lparr>images := images g @ [entry]\<rparr>, i2))"

text \<open>The body of the loop of \<open>galleryBlock.parse\<close> for one key.\<close>

definition parseKey ::
  "(imageBlock \<Rightarrow> imageBlock) \<Rightarrow> string \<Rightarrow> galleryBlock \<Rightarrow> string \<Rightarrow> galleryBlock" where
  "parseKey imageParse rootImage g imgKey =
     (if imgKey = ''thumb_height'' then
        (case GetStr g imgKey of
           None \<Rightarrow> warn (Wrapped imgKey) g
         | Some s \<Rightarrow>
             (case Atoi s of
                None \<Rightarrow> warn (Text ''thumb_height: expected integer'') g
              | Some h \<Rightarrow> g\<lparr>thumbHeight := h\<rparr>))
      else if take 5 imgKey \<noteq> ''anon_'' then
        warn (Text (''Invalid key '' @ [CHR 0x27] @ imgKey @ [CHR 0x27])) g
      else
        (case GetBlock g imgKey of
           None \<Rightarrow> warn (Wrapped imgKey) g
         | Some (MImage i0) \<Rightarrow>
             (case addImage imageParse rootImage g i0 of
                (g1, i2) \<Rightarrow> g1\<lparr>mapValues := (mapValues g1)(imgKey \<mapsto> MImage i2)\<rparr>)
         | Some _ \<Rightarrow> warn (Text (imgKey @ '': expected Block<image{}>'')) g))"

definition galleryParse ::
  "(imageBlock \<Rightarrow> imageBlock) \<Rightarrow> string \<Rightarrow> galleryBlock \<Rightarrow> galleryBlock" where
  "galleryParse imageParse rootImage g =
     foldl (parseKey imageParse rootImage) g (orderedKeys g)"

section \<open>Predicates on parser states\<close>

text \<open>
  The object at address 0, the main block that \<open>Parse\<close> creates, is a block of type
  \<open>main\<close> that has not been closed.
\<close>

definition mainOpen :: "catchObj list \<Rightarrow> bool" where
  "mainOpen h =
     (case load h 0 of
        Some (Block b) \<Rightarrow> typ_b b = ''main'' \<and> \<not> closed b
      | _ \<Rightarrow> False)"

text \<open>
  Neighbouring elements of a positioned content list: a string may follow a string
  only when the earlier one ends with a newline. A catch's \<open>removeIndent\<close> holds
  tabs and spaces only, as \<open>appendString\<close> takes it from the left end of a line.
\<close>

definition pairOK :: "posContent \<Rightarrow> posContent \<Rightarrow> bool" where
  "pairOK x y = (case (fst x, fst y) of (Str v, Str w) \<Rightarrow> endsNewline v | _ \<Rightarrow> True)"

definition indentOK :: "genericCatch \<Rightarrow> bool" where
  "indentOK g = (set (removeIndent g) \<subseteq> {TAB, CHR '' ''})"

definition lastIsOpenString :: "genericCatch \<Rightarrow> bool" where
  "lastIsOpenString g =
     (case lastContent g of Some (Str v) \<Rightarrow> \<not> endsNewline v | _ \<Rightarrow> False)"

definition catchInv :: "genericCatch \<Rightarrow> bool" where
  "catchInv g = (stringsSeparated (positioned g) \<and> indentOK g)"

text \<open>The first part of \<open>appendString\<close>: the line buffer and, after a newline, \<open>finishLine\<close>.\<close>

definition lineStep :: "string \<Rightarrow> genericCatch \<Rightarrow> genericCatch" where
  "lineStep s g =
     (if last s = LF then finishLine (noteNewline (g\<lparr>line := line g @ s\<rparr>))
      else g\<lparr>line := line g @ s\<rparr>)"





text \<open>
  What \<open>appendString\<close> makes of a last string \<open>v\<close> before it appends \<open>s\<close> to it: when
  \<open>s\<close> ends a line and \<open>v\<close> holds no newline, \<open>finishLine\<close> takes the indent of the
  catch off the front of \<open>v\<close>; otherwise \<open>v\<close> stays as it is.
\<close>

definition mergedLast :: "string \<Rightarrow> genericCatch \<Rightarrow> string \<Rightarrow> string" where
  "mergedLast s g v =
     (if last s = LF \<and> LF \<notin> set v
      then trimPrefix v (removeIndent (noteNewline (g\<lparr>line := line g @ s\<rparr>)))
      else v)"

section \<open>Auxiliary facts\<close>

subsection \<open>Strings of a catch\<close>

lemma sep_Cons2: "stringsSeparated (x # y # rest) = (pairOK x y \<and> stringsSeparated (y # rest))"
  by (simp add: pairOK_def)

lemma sep_snoc:
  "stringsSeparated (xs @ [y]) = (stringsSeparated xs \<and> (xs \<noteq> [] \<longrightarrow> pairOK (last xs) y))"
proof (induction xs rule: stringsSeparated.induct)
  case 1 then show ?case by simp
next
  case (2 x) then show ?case by (simp add: pairOK_def)
next
  case (3 x y rest)
  then show ?case by (auto simp: pairOK_def)
qed

lemma update_last: "xs \<noteq> [] \<Longrightarrow> xs[length xs - Suc 0 := z] = butlast xs @ [z]"
  by (induction xs rule: rev_induct) auto

lemma sep_replace_last:
  assumes "stringsSeparated xs" "xs \<noteq> []" "fst (last xs) = Str v"
  shows "stringsSeparated (butlast xs @ [(Str w, q)])"
proof -
  from assms(2) have xs: "xs = butlast xs @ [last xs]" by simp
  with assms(1) have "stringsSeparated (butlast xs @ [last xs])" by simp
  then have a: "stringsSeparated (butlast xs)"
    and b: "butlast xs \<noteq> [] \<longrightarrow> pairOK (last (butlast xs)) (last xs)"
    by (simp_all add: sep_snoc)
  from b assms(3) have "butlast xs \<noteq> [] \<longrightarrow> pairOK (last (butlast xs)) (Str w, q)"
    by (auto simp: pairOK_def split: content.splits)
  with a show ?thesis by (simp add: sep_snoc)
qed

lemma lastIndexByte_none: "c \<notin> set s \<Longrightarrow> lastIndexByte s c = -1"
  by (induction s) (auto simp: Let_def)

lemma lastIndexByte_range: "c \<in> set s \<Longrightarrow> 0 \<le> lastIndexByte s c \<and> nat (lastIndexByte s c) < length s \<and> s ! nat (lastIndexByte s c) = c"
proof (induction s)
  case Nil then show ?case by simp
next
  case (Cons x xs)
  show ?case
  proof (cases "c \<in> set xs")
    case True
    with Cons.IH have "0 \<le> lastIndexByte xs c" "nat (lastIndexByte xs c) < length xs" "xs ! nat (lastIndexByte xs c) = c" by auto
    then show ?thesis by (auto simp: Let_def nat_add_distrib)
  next
    case False
    with Cons.prems have "x = c" by simp
    with False show ?thesis by (simp add: lastIndexByte_none Let_def)
  qed
qed

lemma lastIndexByte_last: "s \<noteq> [] \<Longrightarrow> last s = c \<Longrightarrow> lastIndexByte s c = int (length s) - 1"
proof (induction s)
  case Nil then show ?case by simp
next
  case (Cons x xs)
  then show ?case by (cases "xs = []") (auto simp: Let_def)
qed

lemma trimPrefix_cases: "trimPrefix s pfx = s \<or> trimPrefix s pfx = drop (length pfx) s"
  by (simp add: trimPrefix_def)

lemma endsNewline_notin: "LF \<notin> set v \<Longrightarrow> \<not> endsNewline v"
  by (metis endsNewline_def last_in_set)

lemma lastContent_line [simp]: "lastContent (g\<lparr>line := x\<rparr>) = lastContent g"
  by (simp add: lastContent_def)

lemma lastContent_None: "(lastContent g = None) = (positioned g = [])"
  by (simp add: lastContent_def)

lemma lastContent_Some:
  "(lastContent g = Some c) = (positioned g \<noteq> [] \<and> fst (last (positioned g)) = c)"
  by (auto simp: lastContent_def)

lemma finishLine_newStr:
  fixes v :: string
  assumes "indentOK g" "removeIndent g \<noteq> []"
  defines "ls \<equiv> (if lastIndexByte v LF = -1 then 0 else nat (lastIndexByte v LF))"
  shows "endsNewline (take ls v @ trimPrefix (drop ls v) (removeIndent g)) = endsNewline v"
proof (cases "LF \<in> set v")
  case False
  then have l: "ls = 0" by (simp add: ls_def lastIndexByte_none)
  from False have "LF \<notin> set (trimPrefix v (removeIndent g))"
    using trimPrefix_cases[of v "removeIndent g"] by (auto dest: in_set_dropD)
  with False l show ?thesis by (simp add: endsNewline_notin)
next
  case True
  from lastIndexByte_range[OF True] have r: "0 \<le> lastIndexByte v LF"
    "nat (lastIndexByte v LF) < length v" "v ! nat (lastIndexByte v LF) = LF" by auto
  then have l: "ls = nat (lastIndexByte v LF)" by (simp add: ls_def)
  with r have d: "drop ls v = LF # drop (Suc ls) v"
    by (metis Cons_nth_drop_Suc)
  from assms(1,2) have "hd (removeIndent g) \<noteq> LF"
    by (cases "removeIndent g") (auto simp: indentOK_def LF_def TAB_def)
  with assms(2) d have "trimPrefix (drop ls v) (removeIndent g) = drop ls v"
    by (cases "removeIndent g") (auto simp: trimPrefix_def)
  then show ?thesis by simp
qed

lemma finishLine_shape:
  "positioned (finishLine g) = positioned g \<or>
   (\<exists>v v'. positioned g \<noteq> [] \<and> fst (last (positioned g)) = Str v \<and>
       positioned (finishLine g) = butlast (positioned g) @ [(Str v', snd (last (positioned g)))] \<and>
       (indentOK g \<longrightarrow> endsNewline v' = endsNewline v))"
proof (cases "lastContent g")
  case None
  then show ?thesis by (simp add: finishLine_def Let_def)
next
  case (Some c)
  then have ne: "positioned g \<noteq> []" and c: "fst (last (positioned g)) = c"
    by (simp_all add: lastContent_Some)
  show ?thesis
  proof (cases c)
    case (Blk a)
    with Some show ?thesis by (simp add: finishLine_def Let_def)
  next
    case (Str v)
    show ?thesis
    proof (cases "removeIndent g = []")
      case True
      with Some Str show ?thesis by (simp add: finishLine_def Let_def)
    next
      case False
      define ls where "ls = (if lastIndexByte v LF = -1 then 0 else nat (lastIndexByte v LF))"
      define v' where "v' = take ls v @ trimPrefix (drop ls v) (removeIndent g)"
      have io: "indentOK g \<longrightarrow> endsNewline v' = endsNewline v"
        using finishLine_newStr[of g v] False by (simp add: v'_def ls_def)
      have "positioned (finishLine g) = butlast (positioned g) @ [(Str v', snd (last (positioned g)))]"
        using Some Str False ne by (simp add: finishLine_def Let_def update_last v'_def ls_def)
      with ne c Str io show ?thesis by blast
    qed
  qed
qed

lemma finishLine_other:
  "removeIndent (finishLine g) = removeIndent g \<and> positionedPrefix (finishLine g) = positionedPrefix g"
  by (simp add: finishLine_def Let_def split: option.splits content.splits)

lemma noteNewline_positioned: "positioned (noteNewline g) = positioned g"
  by (simp add: noteNewline_def Let_def)

lemma take_diff_dropWhile: "take (length xs - length (dropWhile P xs)) xs = takeWhile P xs"
proof -
  have "length xs - length (dropWhile P xs) = length (takeWhile P xs)"
    by (metis add_diff_cancel_right' length_append takeWhile_dropWhile_id)
  then show ?thesis
    by (metis append_eq_conv_conj takeWhile_dropWhile_id)
qed

lemma noteNewline_indentOK: "indentOK g \<Longrightarrow> indentOK (noteNewline g)"
  by (auto simp: noteNewline_def Let_def indentOK_def trimLeftTabSpace_def take_diff_dropWhile
           dest: set_takeWhileD)

lemma appendString_lineStep:
  "s \<noteq> [] \<Longrightarrow>
   appendString s ps g =
     Inr (case lastContent (lineStep s g) of
            Some (Str v) \<Rightarrow>
              if endsNewline v then pushContent (Str s) ps (lineStep s g)
              else (lineStep s g)\<lparr>positioned :=
                     butlast (positioned (lineStep s g)) @
                       [(Str (v @ s), snd (last (positioned (lineStep s g))))]\<rparr>
          | _ \<Rightarrow> pushContent (Str s) ps (lineStep s g))"
  by (auto simp: appendString_def lineStep_def Let_def lastContent_None lastContent_Some
                 endsNewline_def update_last
           split: option.splits content.splits)

lemma appendString_empty: "appendString [] ps g = Inl Panic"
  by (simp add: appendString_def)

lemma indentOK_line [simp]: "indentOK (g\<lparr>line := x\<rparr>) = indentOK g"
  by (simp add: indentOK_def)

lemma lineStep_indentOK: "indentOK g \<Longrightarrow> indentOK (lineStep s g)"
  using noteNewline_indentOK[of "g\<lparr>line := line g @ s\<rparr>"]
        finishLine_other[of "noteNewline (g\<lparr>line := line g @ s\<rparr>)"]
  by (simp add: lineStep_def indentOK_def)

lemma lineStep_shape:
  assumes "indentOK g"
  shows "positioned (lineStep s g) = positioned g \<or>
   (\<exists>v v'. positioned g \<noteq> [] \<and> fst (last (positioned g)) = Str v \<and>
       positioned (lineStep s g) = butlast (positioned g) @ [(Str v', snd (last (positioned g)))] \<and>
       endsNewline v' = endsNewline v)"
proof (cases "last s = LF")
  case False
  then show ?thesis by (simp add: lineStep_def)
next
  case True
  let ?n = "noteNewline (g\<lparr>line := line g @ s\<rparr>)"
  have p: "positioned ?n = positioned g" by (simp add: noteNewline_positioned)
  have i: "indentOK ?n" using assms by (simp add: noteNewline_indentOK)
  from finishLine_shape[of ?n] p i True show ?thesis
    by (auto simp: lineStep_def)
qed

lemma lineStep_separated:
  assumes "catchInv g"
  shows "stringsSeparated (positioned (lineStep s g))"
proof -
  from assms have i: "indentOK g" and ss: "stringsSeparated (positioned g)"
    by (simp_all add: catchInv_def)
  from lineStep_shape[OF i, of s] show ?thesis
  proof
    assume "positioned (lineStep s g) = positioned g"
    with ss show ?thesis by simp
  next
    assume "\<exists>v v'. positioned g \<noteq> [] \<and> fst (last (positioned g)) = Str v \<and>
       positioned (lineStep s g) = butlast (positioned g) @ [(Str v', snd (last (positioned g)))] \<and>
       endsNewline v' = endsNewline v"
    then obtain v v' where "positioned g \<noteq> []" "fst (last (positioned g)) = Str v"
      "positioned (lineStep s g) = butlast (positioned g) @ [(Str v', snd (last (positioned g)))]"
      by blast
    with sep_replace_last[OF ss] show ?thesis by simp
  qed
qed

lemma lineStep_open:
  assumes "indentOK g"
  shows "lastIsOpenString (lineStep s g) = lastIsOpenString g
         \<and> length (positioned (lineStep s g)) = length (positioned g)
         \<and> (positioned g \<noteq> [] \<longrightarrow> snd (last (positioned (lineStep s g))) = snd (last (positioned g)))
         \<and> (\<not> lastIsOpenString g \<longrightarrow> positioned (lineStep s g) = positioned g)"
proof -
  from lineStep_shape[OF assms, of s] show ?thesis
  proof
    assume "positioned (lineStep s g) = positioned g"
    then show ?thesis by (simp add: lastIsOpenString_def lastContent_def)
  next
    assume "\<exists>v v'. positioned g \<noteq> [] \<and> fst (last (positioned g)) = Str v \<and>
       positioned (lineStep s g) = butlast (positioned g) @ [(Str v', snd (last (positioned g)))] \<and>
       endsNewline v' = endsNewline v"
    then obtain v v' where ne: "positioned g \<noteq> []" and l: "fst (last (positioned g)) = Str v"
      and e: "positioned (lineStep s g) = butlast (positioned g) @ [(Str v', snd (last (positioned g)))]"
      and n: "endsNewline v' = endsNewline v"
      by blast
    have "\<not> lastIsOpenString g \<Longrightarrow> positioned (lineStep s g) = positioned g"
    proof -
      assume "\<not> lastIsOpenString g"
      with ne l have en: "endsNewline v" by (simp add: lastIsOpenString_def lastContent_def)
      show "positioned (lineStep s g) = positioned g"
      proof (cases "last s = LF")
        case False then show ?thesis by (simp add: lineStep_def)
      next
        case True
        let ?n = "noteNewline (g\<lparr>line := line g @ s\<rparr>)"
        have pn: "positioned ?n = positioned g" by (simp add: noteNewline_positioned)
        have i: "indentOK ?n" using assms by (simp add: noteNewline_indentOK)
        have lc: "lastContent ?n = Some (Str v)" using ne l pn by (simp add: lastContent_def)
        show ?thesis
        proof (cases "removeIndent ?n = []")
          case True
          with lc \<open>last s = LF\<close> pn show ?thesis by (simp add: lineStep_def finishLine_def Let_def)
        next
          case False
          from i False have h: "hd (removeIndent ?n) \<noteq> LF"
            by (cases "removeIndent ?n") (auto simp: indentOK_def LF_def TAB_def)
          from en have li: "lastIndexByte v LF = int (length v) - 1" and vne: "v \<noteq> []"
            by (simp_all add: endsNewline_def lastIndexByte_last)
          from vne en have d: "drop (length v - Suc 0) v = [LF]"
            by (metis One_nat_def append_butlast_last_id append_eq_conv_conj endsNewline_def length_butlast)
          from False h have t: "trimPrefix [LF] (removeIndent ?n) = [LF]"
            by (cases "removeIndent ?n") (auto simp: trimPrefix_def)
          from vne have nl: "nat (int (length v) - 1) = length v - Suc 0" by simp
          from vne have li2: "int (length v) - 1 \<noteq> -1" by simp
          have tk: "take (length v - Suc 0) v @ [LF] = v"
            using d by (metis append_take_drop_id)
          have same: "(positioned g)[length (positioned g) - Suc 0 := (Str v, snd (last (positioned g)))] = positioned g"
            using ne l by (simp add: update_last) (metis append_butlast_last_id prod.collapse)
          show ?thesis
            using lc \<open>last s = LF\<close> pn False li li2 nl d t tk same
            by (simp add: lineStep_def finishLine_def Let_def)
        qed
      qed
    qed
    with ne l e n show ?thesis by (auto simp: lastIsOpenString_def lastContent_def)
  qed
qed

lemma appendString_result:
  assumes inv: "catchInv g" and r: "appendString s ps g = Inr g'"
  shows "catchInv g' \<and>
         (if lastIsOpenString g
          then length (positioned g') = length (positioned g) \<and>
               (\<exists>v'. last (positioned g') = (Str (v' @ s), snd (last (positioned g))))
          else positioned g' = positioned g @ [(Str s, ps)])"
proof -
  from r have sne: "s \<noteq> []" by (auto simp: appendString_def)
  let ?m = "lineStep s g"
  from inv have i: "indentOK g" by (simp add: catchInv_def)
  have im: "indentOK ?m" using i by (rule lineStep_indentOK)
  have sm: "stringsSeparated (positioned ?m)" using inv by (rule lineStep_separated)
  note o = lineStep_open[OF i, of s]
  show ?thesis
  proof (cases "lastIsOpenString g")
    case True
    with o have "lastIsOpenString ?m" by simp
    then obtain v where lc: "lastContent ?m = Some (Str v)" and nv: "\<not> endsNewline v"
      by (auto simp: lastIsOpenString_def split: option.splits content.splits)
    from lc have ne: "positioned ?m \<noteq> []" and l: "fst (last (positioned ?m)) = Str v"
      by (simp_all add: lastContent_Some)
    from r lc nv sne have g': "g' = ?m\<lparr>positioned :=
        butlast (positioned ?m) @ [(Str (v @ s), snd (last (positioned ?m)))]\<rparr>"
      by (simp add: appendString_lineStep)
    from sep_replace_last[OF sm ne l] g' im have "catchInv g'"
      by (simp add: catchInv_def indentOK_def)
    moreover from o ne have "positioned g \<noteq> []" by auto
    ultimately show ?thesis using True g' o ne by auto
  next
    case False
    with o have no: "\<not> lastIsOpenString ?m" and same: "positioned ?m = positioned g" by simp_all
    from r sne no have g': "g' = pushContent (Str s) ps ?m"
      by (auto simp: appendString_lineStep lastIsOpenString_def split: option.splits content.splits)
    have "positioned ?m \<noteq> [] \<longrightarrow> pairOK (last (positioned ?m)) (Str s, ps)"
      using no by (auto simp: lastIsOpenString_def lastContent_def pairOK_def split: content.splits if_splits)
    with sm im g' have "catchInv g'"
      by (simp add: catchInv_def pushContent_def sep_snoc indentOK_def)
    with False g' same show ?thesis by (simp add: pushContent_def)
  qed
qed

lemma catchInv_empty: "catchInv emptyCatch"
  by (simp add: catchInv_def emptyCatch_def indentOK_def)

lemma catchInv_pushBlock: "catchInv g \<Longrightarrow> catchInv (pushContent (Blk a) ps g)"
  by (simp add: catchInv_def pushContent_def sep_snoc indentOK_def pairOK_def split: content.splits)

lemma trimPrefix_Nil: "trimPrefix v [] = v"
  by (simp add: trimPrefix_def)

lemma finishLine_exact:
  assumes i: "indentOK g" and lc: "lastContent g = Some (Str v)"
  shows "positioned (finishLine g) =
           butlast (positioned g) @
             [(Str (if LF \<notin> set v then trimPrefix v (removeIndent g) else v),
               snd (last (positioned g)))]"
proof -
  from lc have ne: "positioned g \<noteq> []" and l: "fst (last (positioned g)) = Str v"
    by (simp_all add: lastContent_Some)
  from ne l have same: "positioned g = butlast (positioned g) @ [(Str v, snd (last (positioned g)))]"
    by (metis append_butlast_last_id prod.collapse)
  show ?thesis
  proof (cases "removeIndent g = []")
    case True
    with lc same show ?thesis by (simp add: finishLine_def Let_def trimPrefix_Nil)
  next
    case False
    define ls where "ls = (if lastIndexByte v LF = -1 then 0 else nat (lastIndexByte v LF))"
    have p: "positioned (finishLine g) = butlast (positioned g) @
        [(Str (take ls v @ trimPrefix (drop ls v) (removeIndent g)), snd (last (positioned g)))]"
      using lc False ne by (simp add: finishLine_def Let_def update_last ls_def)
    have "take ls v @ trimPrefix (drop ls v) (removeIndent g) =
          (if LF \<notin> set v then trimPrefix v (removeIndent g) else v)"
    proof (cases "LF \<in> set v")
      case False
      then have "ls = 0" by (simp add: ls_def lastIndexByte_none)
      with False show ?thesis by simp
    next
      case True
      from lastIndexByte_range[OF True] have r: "0 \<le> lastIndexByte v LF"
        "nat (lastIndexByte v LF) < length v" "v ! nat (lastIndexByte v LF) = LF" by auto
      then have lsv: "ls = nat (lastIndexByte v LF)" by (simp add: ls_def)
      with r have d: "drop ls v = LF # drop (Suc ls) v"
        by (metis Cons_nth_drop_Suc)
      from i \<open>removeIndent g \<noteq> []\<close> have "hd (removeIndent g) \<noteq> LF"
        by (cases "removeIndent g") (auto simp: indentOK_def LF_def TAB_def)
      with \<open>removeIndent g \<noteq> []\<close> d have "trimPrefix (drop ls v) (removeIndent g) = drop ls v"
        by (cases "removeIndent g") (auto simp: trimPrefix_def)
      with True show ?thesis by simp
    qed
    with p show ?thesis by simp
  qed
qed

lemma lineStep_exact:
  assumes i: "indentOK g" and lc: "lastContent g = Some (Str v)"
  shows "positioned (lineStep s g) =
           butlast (positioned g) @ [(Str (mergedLast s g v), snd (last (positioned g)))]"
proof (cases "last s = LF")
  case False
  from lc have ne: "positioned g \<noteq> []" and l: "fst (last (positioned g)) = Str v"
    by (simp_all add: lastContent_Some)
  from ne l have "positioned g = butlast (positioned g) @ [(Str v, snd (last (positioned g)))]"
    by (metis append_butlast_last_id prod.collapse)
  with False show ?thesis by (simp add: lineStep_def mergedLast_def)
next
  case True
  let ?n = "noteNewline (g\<lparr>line := line g @ s\<rparr>)"
  have p: "positioned ?n = positioned g" by (simp add: noteNewline_positioned)
  have i': "indentOK ?n" using i by (simp add: noteNewline_indentOK)
  have lc': "lastContent ?n = Some (Str v)" using lc p by (simp add: lastContent_Some)
  from finishLine_exact[OF i' lc'] True p show ?thesis
    by (simp add: lineStep_def mergedLast_def)
qed

lemma appendString_exact:
  assumes inv: "catchInv g" and r: "appendString s ps g = Inr g'"
  shows "positioned g' =
          (if lastIsOpenString g
           then butlast (positioned g) @
                  [(Str (mergedLast s g (lastString g) @ s), snd (last (positioned g)))]
           else positioned g @ [(Str s, ps)])"
proof (cases "lastIsOpenString g")
  case False
  with appendString_result[OF inv r] show ?thesis by simp
next
  case True
  from r have sne: "s \<noteq> []" by (auto simp: appendString_def)
  from inv have i: "indentOK g" by (simp add: catchInv_def)
  from True obtain v where lc: "lastContent g = Some (Str v)" and nv: "\<not> endsNewline v"
    by (auto simp: lastIsOpenString_def split: option.splits content.splits)
  from lc have "positioned g \<noteq> []" by (simp add: lastContent_Some)
  with lc have lsg: "lastString g = v" by (simp add: lastString_def)
  let ?m = "lineStep s g"
  have pm: "positioned ?m = butlast (positioned g) @ [(Str (mergedLast s g v), snd (last (positioned g)))]"
    using lineStep_exact[OF i lc] .
  then have lcm: "lastContent ?m = Some (Str (mergedLast s g v))"
    by (simp add: lastContent_def)
  from lineStep_open[OF i, of s] True have "lastIsOpenString ?m" by simp
  with lcm have nm: "\<not> endsNewline (mergedLast s g v)" by (simp add: lastIsOpenString_def)
  from r sne lcm nm have "g' = ?m\<lparr>positioned :=
        butlast (positioned ?m) @ [(Str (mergedLast s g v @ s), snd (last (positioned ?m)))]\<rparr>"
    by (simp add: appendString_lineStep)
  with pm True lsg show ?thesis by simp
qed

subsection \<open>Reading the store\<close>

lemma blockObjOf_cong:
  "block q = block p \<Longrightarrow> heap q = heap p \<Longrightarrow> blockObjOf q = blockObjOf p"
  by (simp add: blockObjOf_def cong: option.case_cong)

lemma catchObjOf_cong:
  "catch q = catch p \<Longrightarrow> heap q = heap p \<Longrightarrow> catchObjOf q = catchObjOf p"
  by (simp add: catchObjOf_def cong: option.case_cong)

lemma heap_nextByte: "nextByte p b = Inr p' \<Longrightarrow> heap p' = heap p"
  by (auto simp: nextByte_def)

lemma heap_braceCount: "braceCount p f b = Inr p' \<Longrightarrow> heap p' = heap p"
  by (auto simp: braceCount_def Let_def split: if_splits sum.splits prod.splits)

subsection \<open>The main block stays open\<close>

lemma mainOpen_setGeneric:
  "mainOpen h \<Longrightarrow> load h a = Some obj \<Longrightarrow> mainOpen (h[a := setGeneric g obj])"
  by (cases obj; cases "a = 0")
     (auto simp: mainOpen_def load_def split: if_splits option.splits catchObj.splits)

lemma mainOpen_snoc: "mainOpen h \<Longrightarrow> mainOpen (h @ [x])"
  by (auto simp: mainOpen_def load_def nth_append split: if_splits option.splits catchObj.splits)

lemma mainOpen_appendToCatch:
  "appendToCatch p add b = Inr p' \<Longrightarrow> mainOpen (heap p) \<Longrightarrow> mainOpen (heap p')"
  by (auto simp: appendToCatch_def catchObjOf_def nextByte_def mainOpen_setGeneric
           split: sum.splits option.splits prod.splits)

lemma mainOpen_handleByte:
  "handleByte p b = Inr p' \<Longrightarrow> mainOpen (heap p) \<Longrightarrow> mainOpen (heap p')"
  by (auto simp: handleByte_def Let_def mainOpen_setGeneric
           split: option.splits if_splits dest!: mainOpen_appendToCatch)

lemma mainOpen_braceEscape:
  "braceEscape p b = Inr p' \<Longrightarrow> mainOpen (heap p) \<Longrightarrow> mainOpen (heap p')"
  by (auto simp: braceEscape_def Let_def split: sum.splits if_splits
           dest!: heap_braceCount heap_nextByte mainOpen_handleByte)

lemma mainOpen_openBlock:
  "openBlock p = Inr p' \<Longrightarrow> mainOpen (heap p) \<Longrightarrow> mainOpen (heap p')"
  by (auto simp: openBlock_def Let_def catchObjOf_def mainOpen_setGeneric mainOpen_snoc
           split: sum.splits if_splits prod.splits option.splits)

lemma mainOpen_close_update:
  "mainOpen h \<Longrightarrow> load h ba = Some (Block blk) \<Longrightarrow> typ_b blk \<noteq> ''main'' \<Longrightarrow>
   mainOpen (h[ba := Block (blk\<lparr>closed := True, closePos := ps\<rparr>)])"
  by (cases "ba = 0")
     (auto simp: mainOpen_def load_def split: if_splits option.splits catchObj.splits)

lemma mainOpen_closeBlock:
  "closeBlock p = Inr p' \<Longrightarrow> mainOpen (heap p) \<Longrightarrow> mainOpen (heap p')"
  by (auto simp: closeBlock_def Let_def catchObjOf_def blockObjOf_def mainOpen_setGeneric
                 mainOpen_close_update
           split: sum.splits if_splits prod.splits option.splits catchObj.splits)

lemma mainOpen_variableToken:
  "variableToken p b = Inr p' \<Longrightarrow> mainOpen (heap p) \<Longrightarrow> mainOpen (heap p')"
  by (auto simp: variableToken_def Let_def mainOpen_snoc
           split: sum.splits if_splits prod.splits)

lemma mainOpen_parseByte:
  "parseByte p b = Inr p' \<Longrightarrow> mainOpen (heap p) \<Longrightarrow> mainOpen (heap p')"
  unfolding parseByte_def
  by (auto split: if_splits sum.splits prod.splits
           dest!: mainOpen_braceEscape mainOpen_handleByte heap_nextByte
                  mainOpen_openBlock mainOpen_closeBlock mainOpen_variableToken)

lemma mainOpen_parseLineFrom:
  "parseLineFrom i ln p = Inr p' \<Longrightarrow> mainOpen (heap p) \<Longrightarrow> mainOpen (heap p')"
proof (induction ln arbitrary: i p)
  case Nil
  then show ?case by simp
next
  case (Cons b rest)
  show ?case
  proof (cases "skip p")
    case True
    with Cons.prems Cons.IH[of "i + 1" "p\<lparr>skip := False\<rparr>"] show ?thesis by simp
  next
    case False
    with Cons.prems obtain p1 where
      s: "parseByte (p\<lparr>pos := (fst (pos p), i + 1), this_b := b,
                       next_b := (case rest of [] \<Rightarrow> NUL | c # cs \<Rightarrow> c)\<rparr>) b = Inr p1"
      and r: "parseLineFrom (i + 1) rest p1 = Inr p'"
      by (auto split: sum.splits)
    from mainOpen_parseByte[OF s] Cons.prems(2) have "mainOpen (heap p1)" by simp
    with Cons.IH[OF r] show ?thesis .
  qed
qed

lemma mainOpen_parseLines:
  "parseLines i lns p = Inr p' \<Longrightarrow> mainOpen (heap p) \<Longrightarrow> mainOpen (heap p')"
proof (induction lns arbitrary: i p)
  case Nil
  then show ?case by simp
next
  case (Cons ln lns)
  from Cons.prems obtain p1 where
    s: "parseLine ln (p\<lparr>pos := (i + 1, snd (pos p))\<rparr>) = Inr p1"
    and r: "parseLines (i + 1) lns p1 = Inr p'"
    by (auto split: sum.splits)
  from s Cons.prems(2) have "mainOpen (heap p1)"
    using mainOpen_parseLineFrom[of 0 ln "p\<lparr>pos := (i + 1, snd (pos p))\<rparr>" p1]
    by (simp add: parseLine_def)
  with Cons.IH[OF r] show ?case .
qed

lemma mainOpen_newParser: "mainOpen (heap newParser)"
  by (simp add: mainOpen_def newParser_def load_def mainBlock_def)

subsection \<open>Appending to a block and the brace-escape region\<close>

lemma lineStep_plain: "last s \<noteq> LF \<Longrightarrow> lineStep s g = g\<lparr>line := line g @ s\<rparr>"
  by (simp add: lineStep_def)

lemma appendString_plain_empty:
  "s \<noteq> [] \<Longrightarrow> last s \<noteq> LF \<Longrightarrow> positioned g = [] \<Longrightarrow>
   appendString s ps g = Inr (g\<lparr>line := line g @ s, positioned := [(Str s, ps)]\<rparr>)"
  by (simp add: appendString_lineStep lineStep_plain lastContent_def pushContent_def)


lemma load_snoc_new: "load (h @ [x]) (length h) = Some x"
  by (simp add: load_def)

lemma load_snoc_old: "a < length h \<Longrightarrow> load (h @ [x]) a = load h a"
  by (simp add: load_def nth_append)

lemma load_Some_less: "load h a = Some x \<Longrightarrow> a < length h"
  by (simp add: load_def split: if_splits)

lemma load_update: "load (h[a := x]) c = (if c = a \<and> a < length h then Some x else load h c)"
  by (auto simp: load_def)

lemma handleByte_block:
  "catch p = Some a \<Longrightarrow> load (heap p) a = Some (Block blk) \<Longrightarrow>
   handleByte p b =
     appendToCatch p (if ignore p \<and> escape p then [last_b p, b] else goString b) b"
  by (simp add: handleByte_def)

lemma appendToCatch_block:
  "catch p = Some a \<Longrightarrow> load (heap p) a = Some (Block blk) \<Longrightarrow>
   appendString add (pos p) (blockCatch blk) = Inr g \<Longrightarrow>
   appendToCatch p add b =
     Inr (p\<lparr>heap := (heap p)[a := Block (blk\<lparr>blockCatch := g\<rparr>)], ignore := False,
            last_b := b, escape := (b = BSL \<and> \<not> escape p \<and> braceLevel p = 0)\<rparr>)"
  by (simp add: appendToCatch_def catchObjOf_def nextByte_def)

lemma catchObjOf_Inr:
  "(catchObjOf p = Inr (a, obj)) = (catch p = Some a \<and> load (heap p) a = Some obj)"
  by (auto simp: catchObjOf_def split: option.splits)

lemma blockObjOf_Inr:
  "(blockObjOf p = Inr (a, blk)) = (block p = Some a \<and> load (heap p) a = Some (Block blk))"
  by (auto simp: blockObjOf_def split: option.splits catchObj.splits)

lemma goString_ascii: "(of_char b :: nat) < 128 \<Longrightarrow> goString b = [b]"
  by (simp add: goString_def)


lemma goString_brace: "goString (CHR ''{'') = [CHR ''{'']"
  by (simp add: goString_def)

lemma appendString_brace_empty:
  "appendString [CHR ''{''] ps emptyCatch =
     Inr (emptyCatch\<lparr>line := [CHR ''{''], positioned := [(Str [CHR ''{''], ps)]\<rparr>)"
  using appendString_plain_empty[of "[CHR ''{'']" emptyCatch ps]
  by (simp add: LF_def emptyCatch_def)

lemma open_step:
  assumes b0: "braceLevel p = 0" and c0: "commentLevel p = 0" and e0: "\<not> escape p"
    and n0: "next_b p \<noteq> CHR ''@''"
    and co: "catchObjOf p = Inr (a, obj)"
    and ls: "lastString (genericOf obj) \<noteq> []"
    and sc: "scanHeader (rev (lastString (genericOf obj))) 0 0 [] [] = (cs, st, sn)"
    and bh: "blockHeader st sn = (bt, bn, bc)"
  shows "\<exists>p' blk obj'. parseByte p (CHR ''{'') = Inr p' \<and>
    block p' = Some (length (heap p)) \<and> catch p' = Some (length (heap p)) \<and>
    length (heap p') = Suc (length (heap p)) \<and>
    load (heap p') (length (heap p)) = Some (Block blk) \<and>
    typ_b blk = bt \<and> name blk = bn \<and> classes blk = bc \<and> parent blk = block p \<and>
    \<not> closed blk \<and> openPos blk = pos p \<and>
    positioned (blockCatch blk) = [(Str [CHR ''{''], pos p)] \<and>
    braceLevel p' = (if next_b p = CHR ''{'' then 1 else 0) \<and>
    braceFirst p' = (next_b p = CHR ''{'' \<or> braceFirst p) \<and>
    commentLevel p' = 0 \<and> skip p' = skip p \<and> \<not> ignore p' \<and> \<not> escape p' \<and>
    pos p' = pos p \<and> last_b p' = CHR ''{'' \<and>
    load (heap p') a = Some obj' \<and>
    lastString (genericOf obj') =
      take (length (lastString (genericOf obj)) - cs) (lastString (genericOf obj)) \<and>
    (\<forall>c. c < length (heap p) \<and> c \<noteq> a \<longrightarrow> load (heap p') c = load (heap p) c)"
proof -
  from co have ca: "catch p = Some a" and la: "load (heap p) a = Some obj"
    by (simp_all add: catchObjOf_Inr)
  from la have al: "a < length (heap p)" by (rule load_Some_less)
  let ?ls = "lastString (genericOf obj)"
  from ls have pne: "positioned (genericOf obj) \<noteq> []"
    by (auto simp: lastString_def)
  define g where "g = (genericOf obj)\<lparr>positioned :=
      (positioned (genericOf obj))[length (positioned (genericOf obj)) - 1 :=
         (Str (take (length ?ls - cs) ?ls), snd (last (positioned (genericOf obj))))]\<rparr>"
  have slc: "setLastContent (Str (take (length ?ls - cs) ?ls)) (genericOf obj) = Inr g"
    using pne by (simp add: setLastContent_def g_def)
  define h1 where "h1 = (heap p)[a := setGeneric g obj]"
  define nb where "nb = \<lparr>typ_b = bt, name = bn, classes = bc, openPos = pos p,
      closePos = (0, 0), closed = False, parent = block p, blockCatch = emptyCatch\<rparr>"
  define p1 where "p1 = (p\<lparr>ignore := True\<rparr>)\<lparr>heap := h1 @ [Block nb],
      block := Some (length h1), catch := Some (length h1)\<rparr>"
  define p1' where "p1' = (if next_b p = CHR ''{''
      then p1\<lparr>braceFirst := True, braceLevel := braceLevel p1 + 1\<rparr> else p1)"
  have lh1: "length h1 = length (heap p)" by (simp add: h1_def)
  have co': "catchObjOf (p\<lparr>ignore := True\<rparr>) = Inr (a, obj)"
    using co by (simp add: catchObjOf_cong[of "p\<lparr>ignore := True\<rparr>" p])
  have ob: "openBlock (p\<lparr>ignore := True\<rparr>) = Inr p1'"
    using n0 ls sc bh slc co'
    by (simp add: openBlock_def Let_def p1'_def p1_def nb_def h1_def)
  have c1: "catch p1' = Some (length h1)" and l1: "load (heap p1') (length h1) = Some (Block nb)"
    and i1: "ignore p1'" and e1: "\<not> escape p1'" and pos1: "pos p1' = pos p"
    using e0 by (simp_all add: p1'_def p1_def load_snoc_new)
  have as: "appendString [CHR ''{''] (pos p1') (blockCatch nb) =
      Inr (emptyCatch\<lparr>line := [CHR ''{''], positioned := [(Str [CHR ''{''], pos p)]\<rparr>)"
    using appendString_brace_empty[of "pos p"] by (simp add: nb_def pos1)
  define blk where "blk = nb\<lparr>blockCatch :=
      emptyCatch\<lparr>line := [CHR ''{''], positioned := [(Str [CHR ''{''], pos p)]\<rparr>\<rparr>"
  define p2 where "p2 = p1'\<lparr>heap := (heap p1')[length h1 := Block blk], ignore := False,
      last_b := CHR ''{'', escape := (CHR ''{'' = BSL \<and> \<not> escape p1' \<and> braceLevel p1' = 0)\<rparr>"
  have hb: "handleByte p1' (CHR ''{'') = Inr p2"
    using handleByte_block[OF c1 l1, of "CHR ''{''"] appendToCatch_block[OF c1 l1 as, of "CHR ''{''"] e1
    by (simp add: p2_def blk_def goString_brace)
  have pb: "parseByte p (CHR ''{'') = Inr p2"
    using b0 c0 e0 ob hb by (simp add: parseByte_def)
  have hp2: "heap p2 = h1 @ [Block blk]"
    by (simp add: p2_def p1'_def p1_def)
  have la': "load (heap p2) a = Some (setGeneric g obj)"
    using al by (simp add: hp2 load_def nth_append lh1 h1_def)
  have lsg: "lastString (genericOf (setGeneric g obj)) = take (length ?ls - cs) ?ls"
    using pne by (cases obj) (simp_all add: g_def lastString_def lastContent_def last_list_update)
  have oth: "\<forall>c. c < length (heap p) \<and> c \<noteq> a \<longrightarrow> load (heap p2) c = load (heap p) c"
    by (simp add: hp2 load_def nth_append lh1 h1_def)
  show ?thesis
    apply (rule exI[of _ p2], rule exI[of _ blk], rule exI[of _ "setGeneric g obj"])
    using pb la' lsg oth b0 c0
    by (simp add: hp2 lh1 load_def nth_append blk_def nb_def p2_def p1'_def p1_def BSL_def)
qed

subsection \<open>Lines and ordinary bytes\<close>







subsection \<open>Comment delimiters\<close>

text \<open>
  The steps of \<open>parseByte\<close> on the comment delimiters outside brace-escape regions:
  an unescaped \<open>/*\<close> increments the level, a \<open>*/\<close> met with a level above 0 decrements
  it and has its \<open>/\<close> skipped, a byte that begins neither pair is dropped while the
  level is above 0, and with level 0 a \<open>*/\<close> and an escaped \<open>/*\<close> go to \<open>handleByte\<close>.
\<close>

lemma comment_steps:
  "(braceLevel p = 0 \<and> \<not> escape p \<and> next_b p = CHR ''*'' \<longrightarrow>
      (\<exists>p'. parseByte p (CHR ''/'') = Inr p' \<and> commentLevel p' = commentLevel p + 1 \<and>
            heap p' = heap p \<and> catch p' = catch p \<and> block p' = block p))
   \<and> (braceLevel p = 0 \<and> 0 < commentLevel p \<and> next_b p = CHR ''/'' \<longrightarrow>
      (\<exists>p'. parseByte p (CHR ''*'') = Inr p' \<and> commentLevel p' = commentLevel p - 1 \<and>
            skip p' \<and> heap p' = heap p \<and> catch p' = catch p \<and> block p' = block p))
   \<and> (skip p \<longrightarrow> parseLineFrom i (b # rest) p = parseLineFrom (i + 1) rest (p\<lparr>skip := False\<rparr>))
   \<and> (braceLevel p = 0 \<and> 0 < commentLevel p \<and>
       \<not> (b = CHR ''/'' \<and> next_b p = CHR ''*'') \<and> \<not> (b = CHR ''*'' \<and> next_b p = CHR ''/'') \<longrightarrow>
      (\<exists>p'. parseByte p b = Inr p' \<and> commentLevel p' = commentLevel p \<and>
            heap p' = heap p \<and> catch p' = catch p \<and> block p' = block p))
   \<and> (braceLevel p = 0 \<and> commentLevel p = 0 \<and> next_b p = CHR ''/'' \<longrightarrow>
      parseByte p (CHR ''*'') = handleByte p (CHR ''*''))
   \<and> (braceLevel p = 0 \<and> commentLevel p = 0 \<and> escape p \<and> next_b p = CHR ''*'' \<longrightarrow>
      parseByte p (CHR ''/'') = handleByte (p\<lparr>ignore := True\<rparr>) (CHR ''/''))"
  by (auto simp: parseByte_def nextByte_def)

section \<open>Closing the main block\<close>

text \<open>
  C3: an unescaped \<open>}\<close> met outside comments and brace-escape regions while the
  current block has type \<open>main\<close> makes \<open>parseByte\<close> fail with the error
  "Attempted to close main block"; and whenever \<open>Parse\<close> succeeds, the main block
  is still a block of type \<open>main\<close> that is not closed.
\<close>

theorem close_main_fails:
  "(braceLevel p = 0 \<and> commentLevel p = 0 \<and> \<not> escape p \<and>
      blockObjOf p = Inr (a, blk) \<and> typ_b blk = ''main''
      \<longrightarrow> parseByte p (CHR ''}'') = Inl (Error ''Attempted to close main block''))
   \<and> (Parse input = Inr p' \<longrightarrow> mainOpen (heap p'))"
proof (intro conjI impI)
  assume h: "braceLevel p = 0 \<and> commentLevel p = 0 \<and> \<not> escape p \<and>
      blockObjOf p = Inr (a, blk) \<and> typ_b blk = ''main''"
  then have "blockObjOf (p\<lparr>ignore := True\<rparr>) = Inr (a, blk)"
    by (simp add: blockObjOf_cong[of "p\<lparr>ignore := True\<rparr>" p])
  with h show "parseByte p (CHR ''}'') = Inl (Error ''Attempted to close main block'')"
    by (simp add: parseByte_def closeBlock_def BSL_def)
next
  assume "Parse input = Inr p'"
  then show "mainOpen (heap p')"
    using mainOpen_parseLines[of 0 "splitOn LF input" newParser p'] mainOpen_newParser
    by (simp add: Parse_def)
qed

theorem close_main_fails_witness:
  "parseByte newParser (CHR ''}'') = Inl (Error ''Attempted to close main block'')
   \<and> \<not> isl (Parse ''a b'') \<and> mainOpen (heap (projr (Parse ''a b'')))"
proof -
  have b: "blockObjOf newParser = Inr (0, mainBlock)"
    by (simp add: blockObjOf_def newParser_def load_def)
  have n: "braceLevel newParser = 0 \<and> commentLevel newParser = 0 \<and> \<not> escape newParser"
    by (simp add: newParser_def)
  have t: "typ_b mainBlock = ''main''"
    by (simp add: mainBlock_def)
  have r: "\<not> isl (Parse ''a b'')"
    by code_simp
  then have e: "Parse ''a b'' = Inr (projr (Parse ''a b''))"
    by simp
  from close_main_fails[of newParser 0 mainBlock "''a b''" "projr (Parse ''a b'')"] b n t r e
  show ?thesis by blast
qed

section \<open>The brace-escape region\<close>

text \<open>
  C1, evaluated: inside a brace-escape region the bytes are not appended to the block
  as they are. \<open>handleByte\<close> appends \<open>string(b)\<close>, so each byte from 0x80 on arrives
  as two bytes: the two bytes C3 A9 of the region \<open>x{{..}\<close> leave the four bytes
  C3 83 C2 A9 in the block. The newline between two lines of a region never reaches
  the block, and the content starts with the opening brace of the block itself. At the
  brace that brings the level back to 0 the catch moves to the parent of the block
  although the block is still the current block, and the brace that then closes the
  block of \<open>code[go]{{ if x { y } }}\<close> stops the parse with a panic.
\<close>

theorem brace_escape_not_literal:
  "(case Parse [CHR ''x'', CHR ''{'', CHR ''{'', CHR 0xC3, CHR 0xA9, CHR ''}''] of
      Inr p \<Rightarrow> contentAt p 1 | Inl e \<Rightarrow> [])
     = [Str [CHR ''{'', CHR 0xC3, CHR 0x83, CHR 0xC2, CHR 0xA9]]
   \<and> (case Parse [CHR ''a'', CHR ''{'', CHR ''{'', CHR ''x'', LF, CHR ''y'', CHR ''}''] of
      Inr p \<Rightarrow> contentAt p 1 | Inl e \<Rightarrow> [])
     = [Str ''{xy'']
   \<and> (case Parse ''code[go]{{ if x { y } }'' of
      Inr p \<Rightarrow> (contentAt p 1, braceLevel p, catch p, block p) | Inl e \<Rightarrow> ([], 0, None, None))
     = ([Str ''{ if x { y } ''], 0, Some 0, Some 1)
   \<and> Parse ''code[go]{{ if x { y } }}'' = Inl Panic"
  by code_simp

section \<open>Escaped bytes\<close>

text \<open>
  C2, evaluated: \<open>handleByte\<close> puts the backslash back when \<open>ignore\<close> and \<open>escape\<close>
  are both set, that is for the bytes with syntactic meaning. In the main block an
  escaped \<open>{\<close>, \<open>}\<close> or \<open>@\<close> is appended together with its backslash, and an
  escaped byte without syntactic meaning, here \<open>b\<close>, is appended alone.
\<close>

theorem escaped_byte_content:
  "(case Parse [CHR ''a'', BSL, CHR ''{''] of Inr p \<Rightarrow> contentAt p 0 | Inl e \<Rightarrow> [])
     = [Str [CHR ''a'', BSL, CHR ''{'']]
   \<and> (case Parse [CHR ''a'', BSL, CHR ''}''] of Inr p \<Rightarrow> contentAt p 0 | Inl e \<Rightarrow> [])
     = [Str [CHR ''a'', BSL, CHR ''}'']]
   \<and> (case Parse [CHR ''a'', BSL, CHR ''@''] of Inr p \<Rightarrow> contentAt p 0 | Inl e \<Rightarrow> [])
     = [Str [CHR ''a'', BSL, CHR ''@'']]
   \<and> (case Parse [CHR ''a'', BSL, CHR ''b''] of Inr p \<Rightarrow> contentAt p 0 | Inl e \<Rightarrow> [])
     = [Str ''ab'']"
  by code_simp

section \<open>Comments\<close>

text \<open>
  C4, evaluated: in the source \<open>/*\/**/x\<close> the bytes \<open>\/\<close> stand inside a comment
  (after \<open>/*\\<close> the level is 1 and \<open>escape\<close> is set), yet \<open>parseByte\<close> tests
  \<open>escape\<close> before the level and hands the \<open>/\<close> to \<open>handleByte\<close>: the main block ends
  with the content \<open>\/x\<close>, two bytes of it from inside the comment.
\<close>

theorem comment_content_leak:
  "(case Parse [CHR ''/'', CHR ''*'', BSL, CHR ''/'', CHR ''*'', CHR ''*'', CHR ''/'', CHR ''x''] of
      Inr p \<Rightarrow> (commentLevel p, contentAt p 0) | Inl e \<Rightarrow> (0, []))
     = (0, [Str [BSL, CHR ''/'', CHR ''x'']])
   \<and> (case parseLineFrom 0 [CHR ''/'', CHR ''*'', BSL] (newParser\<lparr>pos := (1, 0)\<rparr>) of
      Inr p \<Rightarrow> (commentLevel p, escape p, contentAt p 0) | Inl e \<Rightarrow> (0, False, []))
     = (1, True, [])"
  by code_simp

section \<open>Blocks without a type\<close>

text \<open>
  C7 as stated fails: a \<open>{\<close> met while the current catch has no last string, as at
  the very start of a page, aborts the parse.
\<close>

theorem empty_header_aborts:
  "Parse ''{'' = Inl (Error ''Block has no type'')"
  by code_simp

text \<open>
  C7, amended: when the last string of the current catch is not empty and the backward
  scan finds no type in it, the parser creates a block of type \<open>map\<close> with the scanned
  name and no classes; when the last string of the catch is empty, \<open>parseByte\<close> fails
  with "Block has no type".
\<close>

theorem empty_type_defaults_to_map:
  assumes b0: "braceLevel p = 0" and c0: "commentLevel p = 0" and e0: "\<not> escape p"
    and n0: "next_b p \<noteq> CHR ''@''"
    and co: "catchObjOf p = Inr (a, obj)"
    and sc: "scanHeader (rev (lastString (genericOf obj))) 0 0 [] [] = (cs, [], sn)"
  shows "(lastString (genericOf obj) \<noteq> [] \<longrightarrow>
           (\<exists>p' blk. parseByte p (CHR ''{'') = Inr p' \<and>
              block p' = Some (length (heap p)) \<and> catch p' = Some (length (heap p)) \<and>
              load (heap p') (length (heap p)) = Some (Block blk) \<and>
              typ_b blk = ''map'' \<and> name blk = sn \<and> classes blk = [] \<and>
              parent blk = block p \<and> \<not> closed blk))
         \<and> (lastString (genericOf obj) = [] \<longrightarrow>
              parseByte p (CHR ''{'') = Inl (Error ''Block has no type''))"
proof (intro conjI impI)
  assume ls: "lastString (genericOf obj) \<noteq> []"
  have bh: "blockHeader [] sn = (''map'', sn, [])"
    by (simp add: blockHeader_def)
  from open_step[OF b0 c0 e0 n0 co ls sc bh]
  show "\<exists>p' blk. parseByte p (CHR ''{'') = Inr p' \<and>
              block p' = Some (length (heap p)) \<and> catch p' = Some (length (heap p)) \<and>
              load (heap p') (length (heap p)) = Some (Block blk) \<and>
              typ_b blk = ''map'' \<and> name blk = sn \<and> classes blk = [] \<and>
              parent blk = block p \<and> \<not> closed blk"
    by blast
next
  assume ls: "lastString (genericOf obj) = []"
  have "catchObjOf (p\<lparr>ignore := True\<rparr>) = Inr (a, obj)"
    using co catchObjOf_cong[of "p\<lparr>ignore := True\<rparr>" p] by simp
  then have "openBlock (p\<lparr>ignore := True\<rparr>) = Inl (Error ''Block has no type'')"
    using n0 ls by (simp add: openBlock_def)
  then show "parseByte p (CHR ''{'') = Inl (Error ''Block has no type'')"
    using b0 c0 e0 by (simp add: parseByte_def)
qed

theorem empty_type_defaults_to_map_witness:
  "\<exists>p' blk. parseByte (projr (Parse '' '')) (CHR ''{'') = Inr p' \<and>
      block p' = Some (length (heap (projr (Parse '' '')))) \<and>
      catch p' = Some (length (heap (projr (Parse '' '')))) \<and>
      load (heap p') (length (heap (projr (Parse '' '')))) = Some (Block blk) \<and>
      typ_b blk = ''map'' \<and> name blk = [] \<and> classes blk = [] \<and>
      parent blk = block (projr (Parse '' '')) \<and> \<not> closed blk"
proof -
  let ?P = "projr (Parse '' '')"
  have b0: "braceLevel ?P = 0" by code_simp
  have c0: "commentLevel ?P = 0" by code_simp
  have e0: "\<not> escape ?P" by code_simp
  have n0: "next_b ?P \<noteq> CHR ''@''" by code_simp
  have co: "catchObjOf ?P = Inr (0, heap ?P ! 0)" by code_simp
  have sc: "scanHeader (rev (lastString (genericOf (heap ?P ! 0)))) 0 0 [] [] = (1, [], [])"
    by code_simp
  have ls: "lastString (genericOf (heap ?P ! 0)) \<noteq> []" by code_simp
  from empty_type_defaults_to_map[OF b0 c0 e0 n0 co sc] ls
  show ?thesis by blast
qed

section \<open>Line endings\<close>




section \<open>The thumbnail height of a gallery\<close>

text \<open>
  C6, evaluated: the gallery starts with \<open>thumbHeight\<close> 220 and handles its keys in
  order, in one pass. With the image before the key \<open>thumb_height\<close>, the image is
  parsed with height 220 and width 0 although the gallery ends with the declared
  height 100; with the key first, the image is parsed with height 100. The entry keeps
  the thumbnail path and the image, whose path is set back to the full-size path.
\<close>

theorem gallery_thumb_height_order:
  "(let g = galleryParse ip root
              (newGalleryBlock [''anon_0'', ''thumb_height'']
                 [''anon_0'' \<mapsto> MImage im, ''thumb_height'' \<mapsto> MString ''100''])
    in thumbHeight g = 100 \<and>
       map img (images g) =
         [(ip (im\<lparr>height := 220, width := 0, parsedDimensions := True\<rparr>))
            \<lparr>path_img := root @ ''/'' @
               file_img (ip (im\<lparr>height := 220, width := 0, parsedDimensions := True\<rparr>))\<rparr>] \<and>
       map thumbPath (images g) =
         [path_img (ip (im\<lparr>height := 220, width := 0, parsedDimensions := True\<rparr>))])
   \<and> (let g = galleryParse ip root
              (newGalleryBlock [''thumb_height'', ''anon_0'']
                 [''anon_0'' \<mapsto> MImage im, ''thumb_height'' \<mapsto> MString ''100''])
    in thumbHeight g = 100 \<and>
       map thumbPath (images g) =
         [path_img (ip (im\<lparr>height := 100, width := 0, parsedDimensions := True\<rparr>))])"
  by (simp add: galleryParse_def newGalleryBlock_def parseKey_def GetStr_def GetBlock_def
                addImage_def Atoi_def isDigit_def Let_def)

section \<open>Neighbouring strings of a catch\<close>

text \<open>
  C9 as stated fails: \<open>appendContents\<close> puts a string next to a string that does not
  end with a newline. \<open>handleByte\<close> takes that path when a byte ends a catch: the
  content of the variable name, with its prefix, goes to the parent as it is.
\<close>

theorem appendContents_breaks_separation:
  "stringsSeparated [(Str ''a'', (1, 1))]
   \<and> appendString ''a'' (1, 1) emptyCatch
        = Inr \<lparr>positioned = [(Str ''a'', (1, 1))], positionedPrefix = [], line = ''a'',
               firstNewline = False, removeIndent = []\<rparr>
   \<and> \<not> stringsSeparated (positioned (appendContents [(Str ''b'', (1, 2))]
        \<lparr>positioned = [(Str ''a'', (1, 1))], positionedPrefix = [], line = ''a'',
         firstNewline = False, removeIndent = []\<rparr>))
   \<and> (case handleByte
      \<lparr>pos = (1, 7), last_b = CHR ''x'', this_b = CHR '' '', next_b = NUL,
       skip = False, ignore = False, escape = False,
       catch = Some 1, block = Some 0, commentLevel = 0, braceLevel = 0,
       braceFirst = False, varNotInterpolated = False, varNegated = False,
       heap = [Block (mainBlock\<lparr>blockCatch := emptyCatch\<lparr>positioned := [(Str ''abc'', (1, 1))]\<rparr>\<rparr>),
               VariableName \<lparr>vnParent = Some 0,
                 vnCatch = emptyCatch\<lparr>positionedPrefix := [(Str ''@'', (1, 5))],
                                       positioned := [(Str ''x'', (1, 6))]\<rparr>\<rparr>]\<rparr> (CHR '' '') of
      Inr p \<Rightarrow> contentAt p 0 | Inl e \<Rightarrow> [])
     = [Str ''abc'', Str ''@'', Str ''x '']
   \<and> \<not> stringsSeparated [(Str ''abc'', (1, 1)), (Str ''@'', (1, 5)), (Str ''x '', (1, 6))]"
  by code_simp

text \<open>
  C9, amended: for a generic catch whose content is built from the empty catch by
  \<open>appendString\<close> and by \<open>pushContent\<close> of blocks (\<open>appendContents\<close> does not keep the
  property), no two neighbouring elements of the positioned content are both strings
  unless the earlier one ends with a newline. \<open>appendString\<close> succeeds for every
  non-empty string and keeps the property: when the last element is a string \<open>v\<close> not
  ending in a newline it replaces that element alone, at the same position, by \<open>v\<close>
  followed by the new string (when the new string ends a line and \<open>v\<close> holds no
  newline, \<open>v\<close> first loses the indent of the catch), and otherwise it leaves the list
  as it is and adds the new string as a new element. The property is stated with the
  indent of the catch made of tabs and spaces, as \<open>appendString\<close> sets it.
\<close>

theorem appendString_strings_separated:
  "catchInv emptyCatch
   \<and> (s \<noteq> [] \<longrightarrow> (\<exists>g1. appendString s ps g = Inr g1))
   \<and> (catchInv g \<and> appendString s ps g = Inr g' \<longrightarrow>
        catchInv g' \<and>
        positioned g' =
          (if lastIsOpenString g
           then butlast (positioned g) @
                  [(Str (mergedLast s g (lastString g) @ s), snd (last (positioned g)))]
           else positioned g @ [(Str s, ps)]))
   \<and> (last s \<noteq> LF \<longrightarrow> mergedLast s g v = v)
   \<and> (catchInv g \<longrightarrow> catchInv (pushContent (Blk a) ps g))"
proof (intro conjI impI)
  show "catchInv emptyCatch" by (rule catchInv_empty)
next
  assume "s \<noteq> []"
  then show "\<exists>g1. appendString s ps g = Inr g1"
    by (simp add: appendString_lineStep)
next
  assume "catchInv g \<and> appendString s ps g = Inr g'"
  then show "catchInv g'"
    using appendString_result[of g s ps g'] by simp
next
  assume "catchInv g \<and> appendString s ps g = Inr g'"
  then show "positioned g' =
          (if lastIsOpenString g
           then butlast (positioned g) @
                  [(Str (mergedLast s g (lastString g) @ s), snd (last (positioned g)))]
           else positioned g @ [(Str s, ps)])"
    using appendString_exact[of g s ps g'] by simp
next
  assume "last s \<noteq> LF"
  then show "mergedLast s g v = v" by (simp add: mergedLast_def)
next
  assume "catchInv g"
  then show "catchInv (pushContent (Blk a) ps g)" by (rule catchInv_pushBlock)
qed

theorem appendString_strings_separated_witness:
  "catchInv \<lparr>positioned = [(Blk 1, (1, 1)), (Str ''ab'', (1, 2))], positionedPrefix = [],
             line = ''ab'', firstNewline = False, removeIndent = []\<rparr>
   \<and> appendString ''c'' (1, 4)
        \<lparr>positioned = [(Blk 1, (1, 1)), (Str ''ab'', (1, 2))], positionedPrefix = [],
         line = ''ab'', firstNewline = False, removeIndent = []\<rparr>
      = Inr \<lparr>positioned = [(Blk 1, (1, 1)), (Str ''abc'', (1, 2))], positionedPrefix = [],
             line = ''abc'', firstNewline = False, removeIndent = []\<rparr>
   \<and> catchInv \<lparr>positioned = [(Blk 1, (1, 1)), (Str ''abc'', (1, 2))], positionedPrefix = [],
               line = ''abc'', firstNewline = False, removeIndent = []\<rparr>
   \<and> positioned \<lparr>positioned = [(Blk 1, (1, 1)), (Str ''abc'', (1, 2))], positionedPrefix = [],
               line = ''abc'', firstNewline = False, removeIndent = []\<rparr>
       = butlast [(Blk 1, (1, 1)), (Str ''ab'', (1 :: nat, 2 :: nat))] @
           [(Str (mergedLast ''c'' \<lparr>positioned = [(Blk 1, (1, 1)), (Str ''ab'', (1, 2))],
                    positionedPrefix = [], line = ''ab'', firstNewline = False,
                    removeIndent = []\<rparr> ''ab'' @ ''c''), (1, 2))]
   \<and> catchInv (pushContent (Blk 2) (1, 4)
        \<lparr>positioned = [(Blk 1, (1, 1)), (Str ''ab'', (1, 2))], positionedPrefix = [],
         line = ''ab'', firstNewline = False, removeIndent = []\<rparr>)"
proof -
  let ?g = "\<lparr>positioned = [(Blk 1, (1, 1)), (Str ''ab'', (1, 2))], positionedPrefix = [],
             line = ''ab'', firstNewline = False, removeIndent = []\<rparr>"
  let ?g' = "\<lparr>positioned = [(Blk 1, (1, 1)), (Str ''abc'', (1, 2))], positionedPrefix = [],
             line = ''abc'', firstNewline = False, removeIndent = []\<rparr>"
  have i: "catchInv ?g"
    by (simp add: catchInv_def indentOK_def)
  have r: "appendString ''c'' (1, 4) ?g = Inr ?g'"
    by (simp add: appendString_def lastContent_def LF_def)
  have o: "lastIsOpenString ?g"
    by (simp add: lastIsOpenString_def lastContent_def endsNewline_def LF_def)
  have l: "lastString ?g = ''ab''"
    by (simp add: lastString_def lastContent_def)
  from appendString_strings_separated[of "''c''" "(1, 4)" ?g ?g' "''ab''" 2] i r o l
  show ?thesis by simp
qed

section \<open>Properties of the configuration getters\<close>

text \<open>
  C10: \<open>Require\<close> returns an error exactly when \<open>Get\<close> yields the empty string or
  the string "0", \<open>GetBool\<close> is false in exactly the same cases, and the error
  returned does not depend on which of the two values was read.
\<close>

theorem require_getbool_agree:
  "((\<exists>e. Require gw gwarn conf v = Inl e) = (Get gw conf v = [] \<or> Get gw conf v = ''0''))
   \<and> ((GetBool gw conf v = False) = (Get gw conf v = [] \<or> Get gw conf v = ''0''))
   \<and> Require gw gwarn conf v =
       (if Get gw conf v = [] \<or> Get gw conf v = ''0''
        then Inl (gwarn conf (''@'' @ v @ '' is required''))
        else Inr (Get gw conf v))"
  by (simp add: Require_def GetBool_def isTrueString_def Let_def)

end
